theory Spec2Isabelle
  imports Complex_Main "HOL-Library.Multiset"
begin

section \<open>Python and pandas primitives used by the recommender\<close>

text \<open>
  A \<open>char\<close> is a Unicode code point from U+0000 to U+00FF and a \<open>string\<close> is a Python
  \<open>str\<close> of such code points; text with code points beyond U+00FF is outside the model.
  On this range \<open>str.lower\<close> acts on each character by itself, and \<open>lower_char\<close> and
  \<open>isspace\<close> are Python's \<open>str.lower\<close> and \<open>str.isspace\<close> on every character of
  it. A pandas cell that may be missing (NaN) is an \<open>option\<close>.
\<close>

datatype py_exception = ReError | ValueError | IndexError

text \<open>
  The letters with a lowercase form in this range: \<open>A\<close> to \<open>Z\<close>, and U+00C0 to U+00DE
  without the multiplication sign U+00D7; each maps to the code point 32 above it.
\<close>

definition upper_letters :: string where
  "upper_letters = ''ABCDEFGHIJKLMNOPQRSTUVWXYZ'' @
     [CHR 0xC0, CHR 0xC1, CHR 0xC2, CHR 0xC3, CHR 0xC4, CHR 0xC5, CHR 0xC6, CHR 0xC7,
      CHR 0xC8, CHR 0xC9, CHR 0xCA, CHR 0xCB, CHR 0xCC, CHR 0xCD, CHR 0xCE, CHR 0xCF,
      CHR 0xD0, CHR 0xD1, CHR 0xD2, CHR 0xD3, CHR 0xD4, CHR 0xD5, CHR 0xD6, CHR 0xD8,
      CHR 0xD9, CHR 0xDA, CHR 0xDB, CHR 0xDC, CHR 0xDD, CHR 0xDE]"

definition lower_letters :: string where
  "lower_letters = ''abcdefghijklmnopqrstuvwxyz'' @
     [CHR 0xE0, CHR 0xE1, CHR 0xE2, CHR 0xE3, CHR 0xE4, CHR 0xE5, CHR 0xE6, CHR 0xE7,
      CHR 0xE8, CHR 0xE9, CHR 0xEA, CHR 0xEB, CHR 0xEC, CHR 0xED, CHR 0xEE, CHR 0xEF,
      CHR 0xF0, CHR 0xF1, CHR 0xF2, CHR 0xF3, CHR 0xF4, CHR 0xF5, CHR 0xF6, CHR 0xF8,
      CHR 0xF9, CHR 0xFA, CHR 0xFB, CHR 0xFC, CHR 0xFD, CHR 0xFE]"

definition lower_char :: "char \<Rightarrow> char" where
  "lower_char c =
     (case map_of (zip upper_letters lower_letters) c of
        None \<Rightarrow> c
      | Some d \<Rightarrow> d)"

definition lower :: "string \<Rightarrow> string" where
  "lower s = map lower_char s"

text \<open>
  \<open>str.isspace\<close>, which \<open>str.strip\<close> uses: tab to carriage return, the separators U+001C
  to U+001F, the space, next line U+0085 and the no-break space U+00A0.
\<close>

definition isspace :: "char \<Rightarrow> bool" where
  "isspace c =
     (let n = (of_char c :: nat)
      in (9 \<le> n \<and> n \<le> 13) \<or> (28 \<le> n \<and> n \<le> 32) \<or> n = 133 \<or> n = 160)"

definition strip :: "string \<Rightarrow> string" where
  "strip s = rev (dropWhile isspace (rev (dropWhile isspace s)))"

text \<open>Python slicing \<open>xs[a:b]\<close>: a negative bound counts from the end, both are clamped.\<close>

definition slice_bound :: "nat \<Rightarrow> int \<Rightarrow> nat" where
  "slice_bound len i = (if i < 0 then nat (max 0 (int len + i)) else min len (nat i))"

definition py_slice :: "'a list \<Rightarrow> int \<Rightarrow> int \<Rightarrow> 'a list" where
  "py_slice xs a b =
     (let lo = slice_bound (length xs) a; hi = slice_bound (length xs) b
      in take (hi - lo) (drop lo xs))"

subsection \<open>\<open>Series.str.contains\<close>: the pattern is a regular expression\<close>

text \<open>
  \<open>str.contains(pat, na=False)\<close> is called without \<open>regex=False\<close>, so pandas compiles
  \<open>pat\<close> with \<open>re.compile\<close> once and tests every cell with \<open>re.search\<close>. Two kinds
  of pattern are interpreted here. A pattern of ordinary characters and dots is searched
  for, the dot standing for any character but the newline. A pattern of ordinary
  characters, dots and at least one opening parenthesis opens a group that nothing
  closes, and \<open>re.compile\<close> raises \<open>re.error\<close>. For every other pattern the result of
  \<open>re.compile\<close> (an error, or a matcher) is the parameter \<open>re_lib\<close>.
\<close>

type_synonym regex_lib = "string \<Rightarrow> py_exception + (string \<Rightarrow> bool)"

definition re_simple_char :: "char \<Rightarrow> bool" where
  "re_simple_char c =
     (c \<notin> set [CHR ''^'', CHR ''$'', CHR ''*'', CHR ''+'', CHR ''?'', CHR ''{'', CHR ''}'',
                CHR ''['', CHR '']'', CHR 0x5C, CHR ''|'', CHR ''('', CHR '')''])"

definition re_item_matches :: "char \<Rightarrow> char \<Rightarrow> bool" where
  "re_item_matches p c = (if p = CHR ''.'' then c \<noteq> CHR 0x0A else p = c)"

fun re_match_here :: "string \<Rightarrow> string \<Rightarrow> bool" where
  "re_match_here [] s = True"
| "re_match_here (p # ps) [] = False"
| "re_match_here (p # ps) (c # cs) = (re_item_matches p c \<and> re_match_here ps cs)"

fun re_search_simple :: "string \<Rightarrow> string \<Rightarrow> bool" where
  "re_search_simple pat [] = re_match_here pat []"
| "re_search_simple pat (c # cs) = (re_match_here pat (c # cs) \<or> re_search_simple pat cs)"

definition re_unclosed_group :: "string \<Rightarrow> bool" where
  "re_unclosed_group pat =
     (CHR ''('' \<in> set pat \<and> list_all (\<lambda>c. c = CHR ''('' \<or> re_simple_char c) pat)"

definition re_compile :: "regex_lib \<Rightarrow> string \<Rightarrow> py_exception + (string \<Rightarrow> bool)" where
  "re_compile re_lib pat =
     (if list_all re_simple_char pat then Inr (re_search_simple pat)
      else if re_unclosed_group pat then Inl ReError
      else re_lib pat)"

definition str_contains ::
  "regex_lib \<Rightarrow> string \<Rightarrow> string option list \<Rightarrow> py_exception + bool list" where
  "str_contains re_lib pat col =
     (case re_compile re_lib pat of
        Inl e \<Rightarrow> Inl e
      | Inr f \<Rightarrow> Inr (map (\<lambda>cell. case cell of None \<Rightarrow> False | Some s \<Rightarrow> f s) col))"

definition str_lower :: "string option list \<Rightarrow> string option list" where
  "str_lower col = map (map_option lower) col"

text \<open>Boolean-mask selection \<open>frame[mask]\<close>.\<close>

definition select_mask :: "'a list \<Rightarrow> bool list \<Rightarrow> 'a list" where
  "select_mask xs msk = map fst (filter snd (zip xs msk))"

text \<open>The literal substring test that the specification speaks of.\<close>

definition is_substring :: "string \<Rightarrow> string \<Rightarrow> bool" where
  "is_substring q s = list_ex (\<lambda>k. take (length q) (drop k s) = q) [0..<Suc (length s)]"

section \<open>The catalogue and the loaded model\<close>

record raw_row =
  raw_title :: "string option"
  raw_overview :: "string option"
  raw_genres :: "string option"
  raw_tagline :: "string option"
  raw_vote_average :: "real option"
  raw_popularity :: "real option"
  raw_tags :: "string option"

record row =
  title :: "string option"
  overview :: string
  genres :: string
  tagline :: string
  vote_average :: real
  popularity :: real

text \<open>
  The module's global state. \<open>indices\<close> is the pickled Series from title to row position,
  as its entries in order; a label may be missing.
\<close>

record model =
  df :: "row list"
  indices :: "(string option \<times> nat) list"
  tfidf_matrix :: "real list list"

definition fillna :: "'a \<Rightarrow> 'a option \<Rightarrow> 'a" where
  "fillna d cell = (case cell of None \<Rightarrow> d | Some v \<Rightarrow> v)"

text \<open>
  \<open>load_model\<close>: the three pickles are the arguments (the fitted vectorizer as the
  function it applies to a tag text); a numeric cell that \<open>pd.to_numeric\<close> cannot
  parse is \<open>None\<close>. The title column stays an object column, so its cells remain
  optional, but \<open>fillna("")\<close> leaves none missing.
\<close>

definition clean_row :: "raw_row \<Rightarrow> row" where
  "clean_row r =
     \<lparr> title = Some (fillna [] (raw_title r)),
       overview = fillna [] (raw_overview r),
       genres = fillna [] (raw_genres r),
       tagline = fillna [] (raw_tagline r),
       vote_average = fillna 0 (raw_vote_average r),
       popularity = fillna 0 (raw_popularity r) \<rparr>"

definition load_model ::
  "raw_row list \<Rightarrow> (string option \<times> nat) list \<Rightarrow> (string \<Rightarrow> real list) \<Rightarrow> model" where
  "load_model raw_df raw_indices tfidf_vectorizer =
     \<lparr> df = map clean_row raw_df,
       indices = raw_indices,
       tfidf_matrix = map (\<lambda>r. tfidf_vectorizer (fillna [] (raw_tags r))) raw_df \<rparr>"

record movie =
  m_title :: string
  m_overview :: string
  m_genres :: string
  m_tagline :: string
  m_vote_average :: real
  m_popularity :: real
  m_poster_url :: "string option"

definition build_movie :: "row \<Rightarrow> movie" where
  "build_movie r =
     \<lparr> m_title = (case title r of None \<Rightarrow> ''nan'' | Some t \<Rightarrow> t),
       m_overview = take 200 (overview r),
       m_genres = genres r,
       m_tagline = tagline r,
       m_vote_average = vote_average r,
       m_popularity = popularity r,
       m_poster_url = None \<rparr>"

section \<open>Title resolution and recommendations\<close>

text \<open>
  \<open>resolve_title\<close> is the lookup step of \<open>get_recommendations\<close> (the statements up to
  \<open>idx = matches.iloc[0]\<close>): \<open>Inr None\<close> is the early \<open>return []\<close>.
\<close>

definition first_value :: "('k \<times> nat) list \<Rightarrow> nat option" where
  "first_value matches = (case matches of [] \<Rightarrow> None | kv # _ \<Rightarrow> Some (snd kv))"

definition resolve_title ::
  "regex_lib \<Rightarrow> (string option \<times> nat) list \<Rightarrow> string \<Rightarrow> py_exception + nat option" where
  "resolve_title re_lib idxs ttl =
     (let title_lower = strip (lower ttl);
          labels = str_lower (map fst idxs);
          matches = select_mask idxs (map (\<lambda>l. l = Some title_lower) labels)
      in if matches = [] then
           (case str_contains re_lib title_lower labels of
              Inl e \<Rightarrow> Inl e
            | Inr msk \<Rightarrow> Inr (first_value (select_mask idxs msk)))
         else Inr (first_value matches))"

text \<open>
  A row of the sparse matrix is the list of its coordinates, over the reals: rounding of
  floating-point products is not modelled. The scores computed below come from vectors
  of zeros and ones, on which floating point is exact; the theorems that hold for every
  model do not depend on the values of the scores.
\<close>

definition dot :: "real list \<Rightarrow> real list \<Rightarrow> real" where
  "dot u v = sum_list (map2 (*) u v)"

text \<open>
  \<open>linear_kernel(tfidf_matrix[idx:idx+1], tfidf_matrix).flatten()\<close>; an \<open>idx\<close> past the
  last row makes the left operand empty, which scikit-learn rejects.
\<close>

definition linear_kernel_row :: "real list list \<Rightarrow> nat \<Rightarrow> py_exception + real list" where
  "linear_kernel_row mat idx =
     (if idx < length mat then Inr (map (dot (mat ! idx)) mat) else Inl ValueError)"

text \<open>
  \<open>sorted(sim_scores, key=lambda x: x[1], reverse=True)\<close>. Python's sort is stable, also
  with \<open>reverse=True\<close>: entries of equal score keep their order. That is the stable
  sort by the negated score.
\<close>

definition sorted_reverse :: "(nat \<times> real) list \<Rightarrow> (nat \<times> real) list" where
  "sorted_reverse xs = sort_key (\<lambda>x. - snd x) xs"

definition iloc :: "'a list \<Rightarrow> nat list \<Rightarrow> py_exception + 'a list" where
  "iloc xs ixs =
     (if list_all (\<lambda>i. i < length xs) ixs then Inr (map (nth xs) ixs) else Inl IndexError)"

definition get_recommendations ::
  "regex_lib \<Rightarrow> model \<Rightarrow> string \<Rightarrow> int \<Rightarrow> py_exception + movie list" where
  "get_recommendations re_lib m ttl n =
     (case resolve_title re_lib (indices m) ttl of
        Inl e \<Rightarrow> Inl e
      | Inr None \<Rightarrow> Inr []
      | Inr (Some idx) \<Rightarrow>
          (case linear_kernel_row (tfidf_matrix m) idx of
             Inl e \<Rightarrow> Inl e
           | Inr cosine_sim \<Rightarrow>
               (let sim_scores = sorted_reverse (enumerate 0 cosine_sim);
                    movie_indices = map fst (py_slice sim_scores 1 (n + 1))
                in case iloc (df m) movie_indices of
                     Inl e \<Rightarrow> Inl e
                   | Inr results \<Rightarrow> Inr (map build_movie results))))"

section \<open>Search\<close>

definition search_movies :: "regex_lib \<Rightarrow> row list \<Rightarrow> string \<Rightarrow> int \<Rightarrow> py_exception + movie list" where
  "search_movies re_lib d query limit =
     (let query_lower = strip (lower query)
      in case str_contains re_lib query_lower (str_lower (map title d)) of
           Inl e \<Rightarrow> Inl e
         | Inr msk \<Rightarrow> Inr (map build_movie (py_slice (select_mask d msk) 0 limit)))"

section \<open>Trending\<close>



section \<open>Titles for autocomplete\<close>

definition dropna :: "'a option list \<Rightarrow> 'a list" where
  "dropna col = concat (map (\<lambda>cell. case cell of None \<Rightarrow> [] | Some v \<Rightarrow> [v]) col)"

fun unique_from :: "'a list \<Rightarrow> 'a list \<Rightarrow> 'a list" where
  "unique_from seen [] = []"
| "unique_from seen (x # xs) =
     (if x \<in> set seen then unique_from seen xs else x # unique_from (x # seen) xs)"

definition unique :: "'a list \<Rightarrow> 'a list" where
  "unique xs = unique_from [] xs"

definition get_all_titles :: "row list \<Rightarrow> int \<Rightarrow> string list" where
  "get_all_titles d limit = py_slice (unique (dropna (map title d))) 0 limit"

section \<open>Poster lookup\<close>

text \<open>
  The provider's answer to one request: \<open>Raised\<close> is any exception inside the \<open>try\<close>
  block (timeout, connection error, a body that is not the expected JSON); otherwise
  the status code and, for each entry of \<open>results\<close>, its \<open>poster_path\<close> if it has one.
  The state holds the module's \<open>_poster_cache\<close> and the queries sent to the provider.
\<close>

datatype tmdb_reply = Raised | Reply nat "string option list"

record poster_state =
  poster_cache :: "string \<rightharpoonup> string"
  requests_sent :: "string list"

definition TMDB_IMG_BASE :: string where
  "TMDB_IMG_BASE = ''https://image.tmdb.org/t/p/w500''"

definition poster_of_reply :: "tmdb_reply \<Rightarrow> string option" where
  "poster_of_reply reply =
     (case reply of
        Raised \<Rightarrow> None
      | Reply status_code results \<Rightarrow>
          (if status_code = 200 then
             (case results of
                [] \<Rightarrow> None
              | r # _ \<Rightarrow>
                  (case r of
                     None \<Rightarrow> None
                   | Some poster_path \<Rightarrow>
                       if poster_path = [] then None else Some (TMDB_IMG_BASE @ poster_path)))
           else None))"

definition requests_get :: "(string \<Rightarrow> tmdb_reply) \<Rightarrow> string \<Rightarrow> poster_state \<Rightarrow> tmdb_reply \<times> poster_state" where
  "requests_get tmdb query st = (tmdb query, st\<lparr>requests_sent := requests_sent st @ [query]\<rparr>)"

definition fetch_poster_path ::
  "string \<Rightarrow> (string \<Rightarrow> tmdb_reply) \<Rightarrow> string \<Rightarrow> poster_state \<Rightarrow> string \<times> poster_state" where
  "fetch_poster_path api_key tmdb ttl st =
     (case poster_cache st ttl of
        Some url \<Rightarrow> (url, st)
      | None \<Rightarrow>
          if api_key = [] then ([], st)
          else
            (let (resp, st1) = requests_get tmdb ttl st
             in case poster_of_reply resp of
                  Some url \<Rightarrow> (url, st1\<lparr>poster_cache := (poster_cache st1)(ttl \<mapsto> url)\<rparr>)
                | None \<Rightarrow> ([], st1\<lparr>poster_cache := (poster_cache st1)(ttl \<mapsto> [])\<rparr>)))"

definition get_poster_url ::
  "string \<Rightarrow> (string \<Rightarrow> tmdb_reply) \<Rightarrow> string \<Rightarrow> poster_state \<Rightarrow> string \<times> poster_state" where
  "get_poster_url api_key tmdb ttl st =
     (if api_key = [] then ([], st)
      else
        (let (resp, st1) = requests_get tmdb ttl st
         in case poster_of_reply resp of
              Some url \<Rightarrow> (url, st1)
            | None \<Rightarrow> ([], st1)))"

section \<open>Routes\<close>

datatype failure = HTTPException nat string | RequestValidationError | Unhandled py_exception

text \<open>
  \<open>/api/movies/recommend\<close>, for an authenticated caller. The bounds of \<open>n\<close> are the
  route's \<open>Query(12, ge=1, le=30)\<close>; an exception that escapes the handler is \<open>Unhandled\<close>.
\<close>

definition recommend_movies ::
  "regex_lib \<Rightarrow> model \<Rightarrow> string \<Rightarrow> int \<Rightarrow> failure + (string \<times> movie list)" where
  "recommend_movies re_lib m ttl n =
     (if n < 1 \<or> 30 < n then Inl RequestValidationError
      else
        (case get_recommendations re_lib m ttl n of
           Inl e \<Rightarrow> Inl (Unhandled e)
         | Inr movies \<Rightarrow>
             if movies = [] then
               Inl (HTTPException 404 (''No recommendations found for '' @ [CHR 0x27] @ ttl @ [CHR 0x27]))
             else Inr (ttl, movies)))"

subsection \<open>Registration and the user store\<close>

text \<open>
  The \<open>users\<close> table: its rows, the counter behind \<open>AUTOINCREMENT\<close>, and the statements
  executed so far. Both \<open>username\<close> and \<open>email\<close> are \<open>UNIQUE\<close>, so an \<open>INSERT\<close> that
  repeats either raises \<open>IntegrityError\<close>, which \<open>create_user\<close> turns into \<open>False\<close>.
\<close>

record user_row =
  user_id :: nat
  username :: string
  email :: string
  hashed_password :: string
  created_at :: string

datatype sql = SelectByUsername string | SelectByEmail string | InsertUser string string

record user_store =
  users :: "user_row list"
  seq :: nat
  executed :: "sql list"

record user_register =
  reg_username :: string
  reg_email :: string
  reg_password :: string

definition get_user_by_username :: "string \<Rightarrow> user_store \<Rightarrow> user_row option \<times> user_store" where
  "get_user_by_username name st =
     (find (\<lambda>u. username u = name) (users st),
      st\<lparr>executed := executed st @ [SelectByUsername name]\<rparr>)"

definition get_user_by_email :: "string \<Rightarrow> user_store \<Rightarrow> user_row option \<times> user_store" where
  "get_user_by_email mail st =
     (find (\<lambda>u. email u = mail) (users st),
      st\<lparr>executed := executed st @ [SelectByEmail mail]\<rparr>)"

definition create_user ::
  "string \<Rightarrow> string \<Rightarrow> string \<Rightarrow> string \<Rightarrow> user_store \<Rightarrow> bool \<times> user_store" where
  "create_user name mail hashed now st =
     (let st1 = st\<lparr>executed := executed st @ [InsertUser name mail]\<rparr>
      in if list_ex (\<lambda>u. username u = name \<or> email u = mail) (users st) then (False, st1)
         else
           (True,
            st1\<lparr>users := users st @
                   [\<lparr>user_id = Suc (seq st), username = name, email = mail,
                      hashed_password = hashed, created_at = now\<rparr>],
                 seq := Suc (seq st)\<rparr>))"

text \<open>
  \<open>register\<close>: \<open>hash_password\<close> (bcrypt with a fresh salt) and the clock are
  parameters.
\<close>

definition register ::
  "(string \<Rightarrow> string) \<Rightarrow> string \<Rightarrow> user_register \<Rightarrow> user_store \<Rightarrow> (failure + string) \<times> user_store" where
  "register hash_password now user st =
     (if length (reg_username user) < 3 then
        (Inl (HTTPException 400 ''Username must be at least 3 characters''), st)
      else if length (reg_password user) < 6 then
        (Inl (HTTPException 400 ''Password must be at least 6 characters''), st)
      else
        (let (by_name, st1) = get_user_by_username (reg_username user) st
         in if by_name \<noteq> None then (Inl (HTTPException 409 ''Username already exists''), st1)
            else
              (let (by_mail, st2) = get_user_by_email (reg_email user) st1
               in if by_mail \<noteq> None then
                    (Inl (HTTPException 409 ''Email already registered''), st2)
                  else
                    (let hashed = hash_password (reg_password user);
                         (success, st3) = create_user (reg_username user) (reg_email user) hashed now st2
                     in if \<not> success then (Inl (HTTPException 500 ''Failed to create user''), st3)
                        else (Inr ''Account created successfully! Please log in.'', st3)))))"

section \<open>Consistency of a loaded model, and example data\<close>

text \<open>
  What start-up establishes and the requests rely on: the matrix has one vector for each
  row of the catalogue, and every position stored in the title index is a row of the
  catalogue.
\<close>

definition model_consistent :: "model \<Rightarrow> bool" where
  "model_consistent m =
     (length (tfidf_matrix m) = length (df m) \<and>
      list_all (\<lambda>kv. snd kv < length (df m)) (indices m))"

definition example_row :: "string \<Rightarrow> real \<Rightarrow> row" where
  "example_row ttl pop =
     \<lparr> title = Some ttl, overview = [], genres = [], tagline = [], vote_average = 0,
       popularity = pop \<rparr>"

text \<open>Three films; the first two have the same tag vector.\<close>

definition example_model :: model where
  "example_model =
     \<lparr> df = [example_row ''Alpha'' 3, example_row ''Beta'' 2, example_row ''Gamma'' 1],
       indices = [(Some ''Alpha'', 0), (Some ''Beta'', 1), (Some ''Gamma'', 2)],
       tfidf_matrix = [[1, 0], [1, 0], [0, 1]] \<rparr>"

definition single_model :: model where
  "single_model =
     \<lparr> df = [example_row ''Alpha'' 3], indices = [(Some ''Alpha'', 0)], tfidf_matrix = [[1]] \<rparr>"


text \<open>A title index with an accented label, U+00E9 in its third place.\<close>

definition accented_index :: "(string option \<times> nat) list" where
  "accented_index = [(Some ''Alpha'', 0), (Some (''Am'' @ [CHR 0xE9] @ ''lie''), 1)]"

text \<open>A regex library that rejects every pattern handed to it.\<close>

definition no_regex_lib :: regex_lib where
  "no_regex_lib pat = Inl ReError"

definition empty_raw_row :: raw_row where
  "empty_raw_row =
     \<lparr> raw_title = None, raw_overview = None, raw_genres = None, raw_tagline = None,
       raw_vote_average = None, raw_popularity = None, raw_tags = None \<rparr>"

definition bob :: user_row where
  "bob = \<lparr> user_id = 1, username = ''bob'', email = ''bob@example.org'',
           hashed_password = ''h'', created_at = ''2024-01-01'' \<rparr>"

definition bob_store :: user_store where
  "bob_store = \<lparr> users = [bob], seq = 1, executed = [] \<rparr>"

section \<open>Evaluation rules and basic lemmas\<close>

lemmas string_defs = strip_def lower_def lower_char_def upper_letters_def lower_letters_def
  isspace_def

lemmas contains_defs = str_contains_def re_compile_def re_simple_char_def re_item_matches_def
  re_unclosed_group_def str_lower_def select_mask_def

lemmas slice_defs = py_slice_def slice_bound_def

lemmas recommend_defs = get_recommendations_def resolve_title_def first_value_def
  linear_kernel_row_def dot_def sorted_reverse_def iloc_def enumerate_eq_zip

lemmas register_defs = register_def get_user_by_username_def get_user_by_email_def
  create_user_def

lemma isspace_lower_char: "isspace (lower_char c) = isspace c"
  by (simp add: lower_char_def upper_letters_def lower_letters_def isspace_def)

lemma dropWhile_isspace_lower: "dropWhile isspace (lower s) = lower (dropWhile isspace s)"
  by (simp add: lower_def dropWhile_map comp_def isspace_lower_char)

lemma strip_lower: "strip (lower s) = lower (strip s)"
proof -
  have "rev (lower s) = lower (rev s)" for s by (simp add: lower_def rev_map)
  then show ?thesis
    by (simp add: strip_def dropWhile_isspace_lower)
qed

lemma dropWhile_all: "list_all P ws \<Longrightarrow> dropWhile P (ws @ xs) = dropWhile P xs"
  by (induction ws) auto

lemma dropWhile_all_nil: "list_all P ws \<Longrightarrow> dropWhile P ws = []"
  by (induction ws) auto

lemma strip_padding:
  assumes ws1: "list_all isspace ws1" and ws2: "list_all isspace ws2"
  shows "strip (ws1 @ s @ ws2) = strip s"
proof -
  have left: "dropWhile isspace (ws1 @ s @ ws2) = dropWhile isspace (s @ ws2)"
    using ws1 by (rule dropWhile_all)
  have rws2: "list_all isspace (rev ws2)" using ws2 by (simp add: list_all_iff)
  show ?thesis
  proof (cases "list_all isspace s")
    case True
    then have "list_all isspace (s @ ws2)" using ws2 by simp
    then have a: "dropWhile isspace (s @ ws2) = []" by (rule dropWhile_all_nil)
    have b: "dropWhile isspace s = []" using True by (rule dropWhile_all_nil)
    show ?thesis by (simp only: strip_def left a b)
  next
    case False
    then obtain x where "x \<in> set s" "\<not> isspace x" by (auto simp: list_all_iff)
    then have "dropWhile isspace (s @ ws2) = dropWhile isspace s @ ws2"
      by (rule dropWhile_append1)
    then have "rev (dropWhile isspace (s @ ws2)) = rev ws2 @ rev (dropWhile isspace s)"
      by simp
    then have "dropWhile isspace (rev (dropWhile isspace (s @ ws2))) =
          dropWhile isspace (rev (dropWhile isspace s))"
      using rws2 by (simp add: dropWhile_all)
    then show ?thesis by (simp add: strip_def left)
  qed
qed

lemma strip_blank:
  assumes "list_all isspace q"
  shows "strip (lower q) = []"
proof -
  have "list_all isspace (lower q)"
    using assms by (simp add: lower_def list_all_iff isspace_lower_char)
  then have "dropWhile isspace (lower q) = []" by (rule dropWhile_all_nil)
  then show ?thesis by (simp only: strip_def dropWhile.simps rev.simps)
qed

lemma select_mask_map: "select_mask xs (map P xs) = filter P xs"
  by (induction xs) (auto simp: select_mask_def)

lemma set_select_mask: "set (select_mask xs msk) \<subseteq> set xs"
  by (auto simp: select_mask_def dest: set_zip_leftD)


lemma set_py_slice: "p \<in> set (py_slice xs a b) \<Longrightarrow> p \<in> set xs"
  by (auto simp: py_slice_def Let_def dest: in_set_takeD in_set_dropD)

lemma length_py_slice_from_one:
  assumes "0 \<le> n"
  shows "length (py_slice xs 1 (n + 1)) = min (nat n) (length xs - 1)"
  using assms by (auto simp: py_slice_def slice_bound_def Let_def min_def)

section \<open>Recommendations: the resolved row and the ranking\<close>

text \<open>
  C1. \<open>get_recommendations\<close> is meant never to return the resolved row itself, and to
  return only rows ranked at least as high as every row it leaves out. It drops the
  first entry of the ranking instead of the resolved row. In \<open>example_model\<close> the rows
  Alpha and Beta have the same vector, so for the title Beta the similarities are
  1, 1, 0 and the stable ranking puts Alpha first: Alpha is dropped, and with \<open>n = 2\<close>
  the result is Beta itself followed by Gamma, whose similarity 0 is below that of the
  omitted Alpha.
\<close>

theorem get_recommendations_returns_resolved_row:
  "resolve_title re_lib (indices example_model) ''Beta'' = Inr (Some 1)
   \<and> linear_kernel_row (tfidf_matrix example_model) 1 = Inr [1, 1, 0]
   \<and> get_recommendations re_lib example_model ''Beta'' 2 =
       Inr [build_movie (example_row ''Beta'' 2), build_movie (example_row ''Gamma'' 1)]"
  by (simp add: recommend_defs example_model_def string_defs contains_defs slice_defs)

section \<open>Poster lookup: the cache\<close>

text \<open>
  C2. Two consecutive calls of \<open>get_poster_url\<close> for one title are meant to contact the
  provider at most once, the first call filling the cache. With a credential configured,
  \<open>get_poster_url\<close> sends a request on each call and never touches the cache: after two
  calls for Avatar two requests have been sent and the cache is still empty.
\<close>

theorem get_poster_url_requests_twice:
  "requests_sent (snd (get_poster_url ''key'' tmdb ''Avatar''
       (snd (get_poster_url ''key'' tmdb ''Avatar''
          \<lparr>poster_cache = Map.empty, requests_sent = []\<rparr>)))) = [''Avatar'', ''Avatar'']
   \<and> poster_cache (snd (get_poster_url ''key'' tmdb ''Avatar''
       (snd (get_poster_url ''key'' tmdb ''Avatar''
          \<lparr>poster_cache = Map.empty, requests_sent = []\<rparr>)))) ''Avatar'' = None"
  by (simp add: get_poster_url_def requests_get_def split: option.split)

text \<open>The cached lookup \<open>_fetch_poster_path\<close>, which no route calls, does keep the bound.\<close>

lemma fetch_poster_path_requests_once:
  "length (requests_sent (snd (fetch_poster_path api_key tmdb t
       (snd (fetch_poster_path api_key tmdb t st))))) \<le> Suc (length (requests_sent st))"
  by (simp add: fetch_poster_path_def requests_get_def split: option.split)

section \<open>Title resolution: the fallback\<close>

text \<open>
  C4. Without an exact match, resolution is meant to pick the first row whose lowercased
  title contains the query as a literal substring. The query is handed to
  \<open>str.contains\<close> as a regular expression: \<open>m.n\<close> has no exact match and is not a
  substring of \<open>batman\<close>, yet it resolves to that row, because the dot matches the
  \<open>a\<close>.
\<close>

theorem resolve_title_fallback_is_regex:
  "resolve_title re_lib [(Some ''Batman'', 7)] ''m.n'' = Inr (Some 7)
   \<and> lower ''Batman'' \<noteq> strip (lower ''m.n'')
   \<and> \<not> is_substring (strip (lower ''m.n'')) (lower ''Batman'')"
  by (simp add: resolve_title_def first_value_def string_defs contains_defs is_substring_def)

section \<open>Search\<close>

text \<open>
  C6. \<open>search_movies\<close> is meant to return exactly the rows whose lowercased title contains
  the query as a substring. The query is a regular expression here too: \<open>m.n\<close> returns
  Batman, whose lowercased title does not contain it.
\<close>

theorem search_movies_is_regex:
  "search_movies re_lib [example_row ''Batman'' 1] ''m.n'' 20 =
     Inr [build_movie (example_row ''Batman'' 1)]
   \<and> \<not> is_substring (strip (lower ''m.n'')) (lower ''Batman'')"
  by (simp add: search_movies_def example_row_def string_defs contains_defs slice_defs
      is_substring_def)

text \<open>
  For a query without any regex metacharacter the search of the model is the literal
  substring test, and \<open>search_movies\<close> then returns the matching rows in catalogue
  order, cut to \<open>limit\<close>.
\<close>

lemma re_match_here_plain:
  "CHR ''.'' \<notin> set pat \<Longrightarrow> re_match_here pat s = (take (length pat) s = pat)"
  by (induction pat s rule: re_match_here.induct) (auto simp: re_item_matches_def)

lemma list_ex_mapped: "list_ex P (map f xs) = list_ex (\<lambda>x. P (f x)) xs"
  by (induction xs) auto

lemma is_substring_Cons:
  "is_substring q (c # cs) = (take (length q) (c # cs) = q \<or> is_substring q cs)"
proof -
  have "[0..<Suc (length (c # cs))] = 0 # map Suc [0..<Suc (length cs)]"
    by (simp add: upt_conv_Cons map_Suc_upt del: upt_Suc)
  then have "is_substring q (c # cs) =
      list_ex (\<lambda>k. take (length q) (drop k (c # cs)) = q) (0 # map Suc [0..<Suc (length cs)])"
    by (simp only: is_substring_def)
  also have "\<dots> = (take (length q) (c # cs) = q \<or>
      list_ex (\<lambda>k. take (length q) (drop k cs) = q) [0..<Suc (length cs)])"
    by (simp only: list_ex_Cons_iff list_ex_mapped drop_0 drop_Suc_Cons)
  finally show ?thesis by (simp only: is_substring_def)
qed

lemma re_search_simple_plain:
  "CHR ''.'' \<notin> set pat \<Longrightarrow> re_search_simple pat s = is_substring pat s"
proof (induction s)
  case Nil
  then show ?case by (simp add: re_match_here_plain is_substring_def)
next
  case (Cons c cs)
  then show ?case by (simp add: re_match_here_plain is_substring_Cons)
qed

lemma search_movies_plain:
  assumes "list_all re_simple_char (strip (lower query))"
    and "CHR ''.'' \<notin> set (strip (lower query))"
  shows "search_movies re_lib d query limit =
     Inr (map build_movie (py_slice
        (filter (\<lambda>r. case title r of None \<Rightarrow> False
                      | Some t \<Rightarrow> is_substring (strip (lower query)) (lower t)) d) 0 limit))"
proof -
  have "select_mask d (map (\<lambda>cell. case cell of None \<Rightarrow> False
            | Some s \<Rightarrow> re_search_simple (strip (lower query)) s) (str_lower (map title d)))
       = filter (\<lambda>r. case title r of None \<Rightarrow> False
                      | Some t \<Rightarrow> is_substring (strip (lower query)) (lower t)) d"
  proof -
    have "map (\<lambda>cell. case cell of None \<Rightarrow> False
            | Some s \<Rightarrow> re_search_simple (strip (lower query)) s) (str_lower (map title d))
       = map (\<lambda>r. case title r of None \<Rightarrow> False
                      | Some t \<Rightarrow> is_substring (strip (lower query)) (lower t)) d"
      using assms(2) by (auto simp: str_lower_def re_search_simple_plain split: option.splits)
    then show ?thesis by (simp only: select_mask_map)
  qed
  then show ?thesis
    using assms(1) by (simp add: search_movies_def Let_def str_contains_def re_compile_def)
qed

section \<open>Titles for autocomplete: missing titles\<close>

text \<open>
  C7. \<open>get_all_titles\<close> is meant to return no empty title. \<open>load_model\<close> has replaced
  every missing title by the empty string, so the \<open>dropna\<close> in \<open>get_all_titles\<close>
  finds nothing to drop: a catalogue whose only row has no title yields the list that
  holds the empty string.
\<close>

theorem get_all_titles_keeps_empty_title:
  "map title (df (load_model [empty_raw_row] [] tfidf_vectorizer)) = [Some []]
   \<and> get_all_titles (df (load_model [empty_raw_row] [] tfidf_vectorizer)) 50000 = [[]]"
  by (simp add: get_all_titles_def load_model_def clean_row_def fillna_def dropna_def
      unique_def slice_defs empty_raw_row_def)

section \<open>Not found: empty result, 404 at the route\<close>

text \<open>
  C8. A title that matches no row, neither exactly nor as a substring, is meant to give
  the empty list from \<open>get_recommendations\<close> and the 404 response from the route. The
  fallback compiles the title as a regular expression: \<open>Up (2009\<close> equals no label of
  \<open>example_model\<close> and is a substring of none, but its parenthesis is never closed, so
  \<open>get_recommendations\<close> raises \<open>re.error\<close> and the route fails with the unhandled
  exception instead of answering 404.
\<close>

theorem unknown_title_raises:
  "list_all (\<lambda>kv. case fst kv of
                     None \<Rightarrow> True
                   | Some l \<Rightarrow> lower l \<noteq> strip (lower ''Up (2009'')
                       \<and> \<not> is_substring (strip (lower ''Up (2009'')) (lower l))
     (indices example_model)
   \<and> get_recommendations re_lib example_model ''Up (2009'' 12 = Inl ReError
   \<and> recommend_movies re_lib example_model ''Up (2009'' 12 = Inl (Unhandled ReError)"
  by (simp add: recommend_movies_def recommend_defs example_model_def string_defs
      contains_defs is_substring_def)

text \<open>
  When the lookup does come back without a row, the result is the empty list for every
  \<open>n\<close>, and the route answers 404.
\<close>

lemma lookup_without_row_gives_404:
  assumes "resolve_title re_lib (indices m) ttl = Inr None"
    and "1 \<le> n" and "n \<le> 30"
  shows "get_recommendations re_lib m ttl k = Inr []
       \<and> recommend_movies re_lib m ttl n =
           Inl (HTTPException 404 (''No recommendations found for '' @ [CHR 0x27] @ ttl @ [CHR 0x27]))"
  using assms by (simp add: get_recommendations_def recommend_movies_def)

section \<open>Trending: pages of the sorted catalogue\<close>










section \<open>Title resolution: the exact match\<close>

lemma first_filter:
  assumes "k < length xs" "P (xs ! k)"
  shows "\<exists>j\<le>k. P (xs ! j) \<and> (\<forall>i<j. \<not> P (xs ! i)) \<and>
           (\<exists>rest. filter P xs = xs ! j # rest)"
  using assms
proof (induction xs arbitrary: k)
  case Nil
  then show ?case by simp
next
  case (Cons x xs)
  show ?case
  proof (cases "P x")
    case True
    then have "P ((x # xs) ! 0) \<and> (\<forall>i<0. \<not> P ((x # xs) ! i)) \<and>
           (\<exists>rest. filter P (x # xs) = (x # xs) ! 0 # rest)" by simp
    then show ?thesis by blast
  next
    case False
    with Cons.prems obtain k' where k': "k = Suc k'" by (cases k) auto
    with Cons.prems have "k' < length xs" "P (xs ! k')" by auto
    from Cons.IH[OF this] obtain j rest where
      j: "j \<le> k'" "P (xs ! j)" "\<forall>i<j. \<not> P (xs ! i)" "filter P xs = xs ! j # rest" by blast
    have "\<forall>i<Suc j. \<not> P ((x # xs) ! i)"
      using False j(3) by (auto simp: less_Suc_eq_0_disj)
    with j k' False have "Suc j \<le> k \<and> P ((x # xs) ! Suc j) \<and> (\<forall>i<Suc j. \<not> P ((x # xs) ! i)) \<and>
           (\<exists>rest. filter P (x # xs) = (x # xs) ! Suc j # rest)" by simp
    then show ?thesis by blast
  qed
qed

text \<open>
  C5, as the code has it. Take a label \<open>t\<close> of the title index that has no whitespace at
  either end, in any casing \<open>q\<close> and with any whitespace around it. Resolution returns
  the position stored with the first label, in index order, that equals \<open>t\<close> in lower
  case; this is an entry at or before the one for \<open>t\<close>, and the entry of \<open>t\<close> itself
  when no earlier label has the same lowercased form. Letters and whitespace are those
  of the whole range of \<open>char\<close>, accented letters and the no-break space among them.
\<close>

theorem resolve_title_exact:
  assumes k: "k < length idxs" and lbl: "fst (idxs ! k) = Some t"
    and nows: "strip t = t"
    and casing: "lower q = lower t"
    and ws1: "list_all isspace ws1" and ws2: "list_all isspace ws2"
  shows "\<exists>j\<le>k. map_option lower (fst (idxs ! j)) = Some (lower t)
          \<and> (\<forall>i<j. map_option lower (fst (idxs ! i)) \<noteq> Some (lower t))
          \<and> resolve_title re_lib idxs (ws1 @ q @ ws2) = Inr (Some (snd (idxs ! j)))"
proof -
  let ?P = "\<lambda>kv. map_option lower (fst kv) = Some (lower t)"
  have "strip (lower (ws1 @ q @ ws2)) = lower (strip (ws1 @ q @ ws2))" by (rule strip_lower)
  also have "\<dots> = lower (strip q)" using ws1 ws2 by (simp add: strip_padding)
  also have "\<dots> = strip (lower t)" by (simp add: strip_lower[symmetric] casing)
  also have "\<dots> = lower t" by (simp add: strip_lower nows)
  finally have tl: "strip (lower (ws1 @ q @ ws2)) = lower t" .
  have sel: "select_mask idxs (map (\<lambda>l. l = Some (lower t)) (str_lower (map fst idxs))) = filter ?P idxs"
    by (simp add: str_lower_def comp_def select_mask_map)
  have "?P (idxs ! k)" using lbl by simp
  from first_filter[of k idxs ?P, OF k this] obtain j rest where
    j: "j \<le> k" "?P (idxs ! j)" "\<forall>i<j. \<not> ?P (idxs ! i)" "filter ?P idxs = idxs ! j # rest"
    by blast
  have "resolve_title re_lib idxs (ws1 @ q @ ws2) = Inr (Some (snd (idxs ! j)))"
    unfolding resolve_title_def Let_def tl sel j(4) first_value_def by simp
  with j show ?thesis by blast
qed

theorem resolve_title_exact_witness:
  "strip (''Am'' @ [CHR 0xE9] @ ''lie'') = ''Am'' @ [CHR 0xE9] @ ''lie''
   \<and> lower (''AM'' @ [CHR 0xC9] @ ''LIE'') = lower (''Am'' @ [CHR 0xE9] @ ''lie'')
   \<and> list_all isspace [CHR 0xA0, CHR '' ''] \<and> list_all isspace [CHR 0x09, CHR 0x85]
   \<and> resolve_title no_regex_lib accented_index
         ([CHR 0xA0, CHR '' ''] @ (''AM'' @ [CHR 0xC9] @ ''LIE'') @ [CHR 0x09, CHR 0x85]) =
       Inr (Some 1)"
proof -
  let ?t = "''Am'' @ [CHR 0xE9] @ ''lie''"
  let ?q = "''AM'' @ [CHR 0xC9] @ ''LIE''"
  have k: "1 < length accented_index" by (simp add: accented_index_def)
  have lbl: "fst (accented_index ! 1) = Some ?t" by (simp add: accented_index_def)
  have nows: "strip ?t = ?t" by (simp add: string_defs)
  have casing: "lower ?q = lower ?t" by (simp add: string_defs)
  have ws1: "list_all isspace [CHR 0xA0, CHR '' '']" by (simp add: isspace_def)
  have ws2: "list_all isspace [CHR 0x09, CHR 0x85]" by (simp add: isspace_def)
  from resolve_title_exact [OF k lbl nows casing ws1 ws2, of no_regex_lib] obtain j where
    j: "j \<le> 1" "map_option lower (fst (accented_index ! j)) = Some (lower ?t)"
       "resolve_title no_regex_lib accented_index
          ([CHR 0xA0, CHR '' ''] @ ?q @ [CHR 0x09, CHR 0x85]) = Inr (Some (snd (accented_index ! j)))"
    by blast
  have "map_option lower (fst (accented_index ! 0)) \<noteq> Some (lower ?t)"
    by (simp add: accented_index_def string_defs)
  with j(1,2) have "j = 1" by (cases j) auto
  with j(3) have r: "resolve_title no_regex_lib accented_index
          ([CHR 0xA0, CHR '' ''] @ ?q @ [CHR 0x09, CHR 0x85]) = Inr (Some 1)"
    by (simp add: accented_index_def)
  from nows casing ws1 ws2 r show ?thesis by (intro conjI)
qed

text \<open>
  C5 as stated fails for a label with whitespace at an end: the query is stripped, the
  labels are not. The exact title \<open>Avatar\<close> followed by a space is looked up as
  \<open>avatar\<close>, equals no label, and the fallback picks the earlier row \<open>Avatar 2\<close>.
\<close>

theorem resolve_title_exact_counterexample:
  "fst ([(Some ''Avatar 2'', 0), (Some ''Avatar '', 1)] ! 1) = Some ''Avatar ''
   \<and> resolve_title no_regex_lib [(Some ''Avatar 2'', 0), (Some ''Avatar '', 1)] ''Avatar '' = Inr (Some 0)"
  by (simp add: resolve_title_def first_value_def string_defs contains_defs)

section \<open>Blank queries\<close>

lemma load_model_matrix_length:
  "length (tfidf_matrix (load_model raw_df raw_indices v)) = length (df (load_model raw_df raw_indices v))"
  by (simp add: load_model_def)

lemma re_search_simple_empty: "re_search_simple [] s = True"
  by (cases s) auto

lemma length_sorted_reverse: "length (sorted_reverse xs) = length xs"
  by (simp add: sorted_reverse_def)

lemma set_sorted_reverse: "set (sorted_reverse xs) = set xs"
  by (simp add: sorted_reverse_def)

lemma enumerate_fst_bound: "p \<in> set (enumerate 0 xs) \<Longrightarrow> fst p < length xs"
  by (auto simp: in_set_enumerate_eq)

lemma lower_eq_Nil: "map_option lower l = Some [] \<longleftrightarrow> l = Some []"
  by (cases l) (auto simp: lower_def)

lemma blank_exact_matches:
  "select_mask idxs (map (\<lambda>l. l = Some []) (str_lower (map fst idxs))) =
     filter (\<lambda>kv. fst kv = Some []) idxs"
proof -
  have "map (\<lambda>l. l = Some []) (str_lower (map fst idxs)) = map (\<lambda>kv. fst kv = Some []) idxs"
    by (auto simp: str_lower_def lower_def)
  then show ?thesis by (simp only: select_mask_map)
qed

lemma blank_fallback_matches:
  "str_contains re_lib [] (str_lower (map fst idxs)) = Inr (map (\<lambda>kv. fst kv \<noteq> None) idxs)"
  by (auto simp: str_contains_def re_compile_def str_lower_def re_search_simple_empty
      split: option.splits)

lemma resolve_title_blank:
  assumes q: "list_all isspace q" and ex: "list_ex (\<lambda>kv. fst kv \<noteq> None) idxs"
  shows "\<exists>j<length idxs.
           resolve_title re_lib idxs q = Inr (Some (snd (idxs ! j)))
         \<and> (if list_ex (\<lambda>kv. fst kv = Some []) idxs
            then fst (idxs ! j) = Some [] \<and> (\<forall>i<j. fst (idxs ! i) \<noteq> Some [])
            else fst (idxs ! j) \<noteq> None \<and> (\<forall>i<j. fst (idxs ! i) = None))"
proof -
  have tl: "strip (lower q) = []" using q by (rule strip_blank)
  show ?thesis
  proof (cases "list_ex (\<lambda>kv. fst kv = Some []) idxs")
    case True
    then obtain k where k: "k < length idxs" "fst (idxs ! k) = Some []"
      by (auto simp: list_ex_iff in_set_conv_nth)
    from first_filter [of k idxs "\<lambda>kv. fst kv = Some []", OF k] obtain j rest where
      j: "j \<le> k" "fst (idxs ! j) = Some []" "\<forall>i<j. fst (idxs ! i) \<noteq> Some []"
         "filter (\<lambda>kv. fst kv = Some []) idxs = idxs ! j # rest"
      by blast
    have res: "resolve_title re_lib idxs q = Inr (Some (snd (idxs ! j)))"
      unfolding resolve_title_def Let_def tl blank_exact_matches j(4) first_value_def by simp
    have jl: "j < length idxs" using j(1) k(1) by simp
    have "j < length idxs \<and> resolve_title re_lib idxs q = Inr (Some (snd (idxs ! j)))
         \<and> (if list_ex (\<lambda>kv. fst kv = Some []) idxs
            then fst (idxs ! j) = Some [] \<and> (\<forall>i<j. fst (idxs ! i) \<noteq> Some [])
            else fst (idxs ! j) \<noteq> None \<and> (\<forall>i<j. fst (idxs ! i) = None))"
      using jl res True j(2,3) by simp
    then show ?thesis by blast
  next
    case False
    then have none: "filter (\<lambda>kv. fst kv = Some []) idxs = []"
      by (auto simp: list_ex_iff filter_empty_conv)
    from ex obtain k where k: "k < length idxs" "fst (idxs ! k) \<noteq> None"
      by (auto simp: list_ex_iff in_set_conv_nth)
    from first_filter [of k idxs "\<lambda>kv. fst kv \<noteq> None", OF k] obtain j rest where
      j: "j \<le> k" "fst (idxs ! j) \<noteq> None" "\<forall>i<j. \<not> fst (idxs ! i) \<noteq> None"
         "filter (\<lambda>kv. fst kv \<noteq> None) idxs = idxs ! j # rest"
      by blast
    have res: "resolve_title re_lib idxs q = Inr (Some (snd (idxs ! j)))"
      unfolding resolve_title_def Let_def tl blank_exact_matches none blank_fallback_matches
        sum.case select_mask_map j(4) first_value_def by simp
    have jl: "j < length idxs" using j(1) k(1) by simp
    have "j < length idxs \<and> resolve_title re_lib idxs q = Inr (Some (snd (idxs ! j)))
         \<and> (if list_ex (\<lambda>kv. fst kv = Some []) idxs
            then fst (idxs ! j) = Some [] \<and> (\<forall>i<j. fst (idxs ! i) \<noteq> Some [])
            else fst (idxs ! j) \<noteq> None \<and> (\<forall>i<j. fst (idxs ! i) = None))"
      using jl res False j(2,3) by simp
    then show ?thesis by blast
  qed
qed

lemma recommendations_of_resolved:
  assumes res: "resolve_title re_lib (indices m) q = Inr (Some i)"
    and i: "i < length (tfidf_matrix m)"
    and len: "length (tfidf_matrix m) = length (df m)"
    and rows: "2 \<le> length (df m)" and n: "1 \<le> n"
  shows "\<exists>ms. get_recommendations re_lib m q n = Inr ms
           \<and> ms \<noteq> [] \<and> length ms = min (nat n) (length (df m) - 1)"
proof -
  let ?cs = "map (dot (tfidf_matrix m ! i)) (tfidf_matrix m)"
  let ?scores = "sorted_reverse (enumerate 0 ?cs)"
  let ?ixs = "map fst (py_slice ?scores 1 (n + 1))"
  have kern: "linear_kernel_row (tfidf_matrix m) i = Inr ?cs"
    using i by (simp add: linear_kernel_row_def)
  have len_scores: "length ?scores = length (df m)"
    using len by (simp add: length_sorted_reverse)
  have "\<And>p. p \<in> set (py_slice ?scores 1 (n + 1)) \<Longrightarrow> fst p < length (df m)"
  proof -
    fix p assume "p \<in> set (py_slice ?scores 1 (n + 1))"
    then have "p \<in> set ?scores" by (rule set_py_slice)
    then have "p \<in> set (enumerate 0 ?cs)" by (simp add: set_sorted_reverse)
    then have "fst p < length ?cs" by (rule enumerate_fst_bound)
    then show "fst p < length (df m)" using len by simp
  qed
  then have "list_all (\<lambda>i. i < length (df m)) ?ixs"
    by (simp add: list_all_iff)
  then have il: "iloc (df m) ?ixs = Inr (map (nth (df m)) ?ixs)"
    by (simp add: iloc_def)
  let ?ms = "map build_movie (map (nth (df m)) ?ixs)"
  have rec: "get_recommendations re_lib m q n = Inr ?ms"
    by (simp add: get_recommendations_def res kern Let_def il)
  have "length ?ms = length (py_slice ?scores 1 (n + 1))" by simp
  also have "\<dots> = min (nat n) (length ?scores - 1)"
    using n by (simp add: length_py_slice_from_one)
  finally have lms: "length ?ms = min (nat n) (length (df m) - 1)"
    by (simp only: len_scores)
  then have "?ms \<noteq> []" using rows n by (cases "?ms") auto
  with rec lms show ?thesis by blast
qed

text \<open>
  C10, as the code has it. Take a title index with a label that is not missing and a
  query of whitespace only (or the empty query). Resolution returns the position stored
  with the first entry, in index order, whose label is not missing: the normalized
  query is empty and every title contains it. (If some label is the empty title itself,
  the exact match comes first and the first such entry is taken.) When moreover the
  model is consistent, the catalogue has at least two rows and \<open>n\<close> is at least 1,
  \<open>get_recommendations\<close> returns a non-empty list, of \<open>n\<close> rows or of all rows but one
  if that is fewer.
\<close>

theorem blank_query_recommendations:
  assumes q: "list_all isspace q"
    and lbl: "list_ex (\<lambda>kv. fst kv \<noteq> None) (indices m)"
  shows "\<exists>j<length (indices m).
           resolve_title re_lib (indices m) q = Inr (Some (snd (indices m ! j)))
         \<and> (if list_ex (\<lambda>kv. fst kv = Some []) (indices m)
            then fst (indices m ! j) = Some [] \<and> (\<forall>i<j. fst (indices m ! i) \<noteq> Some [])
            else fst (indices m ! j) \<noteq> None \<and> (\<forall>i<j. fst (indices m ! i) = None))
         \<and> (model_consistent m \<and> 2 \<le> length (df m) \<and> 1 \<le> n \<longrightarrow>
              (\<exists>ms. get_recommendations re_lib m q n = Inr ms
                 \<and> ms \<noteq> [] \<and> length ms = min (nat n) (length (df m) - 1)))"
proof -
  from resolve_title_blank [OF q lbl] obtain j where j: "j < length (indices m)"
    and res: "resolve_title re_lib (indices m) q = Inr (Some (snd (indices m ! j)))"
    and first: "if list_ex (\<lambda>kv. fst kv = Some []) (indices m)
            then fst (indices m ! j) = Some [] \<and> (\<forall>i<j. fst (indices m ! i) \<noteq> Some [])
            else fst (indices m ! j) \<noteq> None \<and> (\<forall>i<j. fst (indices m ! i) = None)"
    by blast
  have "\<exists>ms. get_recommendations re_lib m q n = Inr ms
          \<and> ms \<noteq> [] \<and> length ms = min (nat n) (length (df m) - 1)"
    if ok: "model_consistent m \<and> 2 \<le> length (df m) \<and> 1 \<le> n"
  proof -
    from ok have len: "length (tfidf_matrix m) = length (df m)"
      by (simp add: model_consistent_def)
    from ok j have "snd (indices m ! j) < length (df m)"
      by (simp add: model_consistent_def list_all_length)
    with len have i: "snd (indices m ! j) < length (tfidf_matrix m)" by simp
    from ok have rows: "2 \<le> length (df m)" and n: "1 \<le> n" by simp_all
    from res i len rows n show ?thesis by (rule recommendations_of_resolved)
  qed
  with j res first show ?thesis by blast
qed

theorem blank_query_recommendations_witness:
  "list_all isspace [CHR '' '', CHR 0x09, CHR 0xA0]
   \<and> list_ex (\<lambda>kv. fst kv \<noteq> None) (indices example_model)
   \<and> model_consistent example_model
   \<and> resolve_title no_regex_lib (indices example_model) [CHR '' '', CHR 0x09, CHR 0xA0] = Inr (Some 0)
   \<and> (\<exists>ms. get_recommendations no_regex_lib example_model [CHR '' '', CHR 0x09, CHR 0xA0] 12 = Inr ms
         \<and> ms \<noteq> [] \<and> length ms = 2)"
proof -
  let ?q = "[CHR '' '', CHR 0x09, CHR 0xA0]"
  have ok: "model_consistent example_model"
    by (simp add: model_consistent_def example_model_def)
  have q: "list_all isspace ?q" by (simp add: isspace_def)
  have lbl: "list_ex (\<lambda>kv. fst kv \<noteq> None) (indices example_model)"
    by (simp add: example_model_def)
  have noempty: "\<not> list_ex (\<lambda>kv. fst kv = Some []) (indices example_model)"
    by (simp add: example_model_def)
  have hyp: "model_consistent example_model \<and> 2 \<le> length (df example_model) \<and> (1::int) \<le> 12"
    using ok by (simp add: example_model_def)
  have m: "min (nat 12) (length (df example_model) - 1) = 2" by (simp add: example_model_def)
  from blank_query_recommendations [OF q lbl, of no_regex_lib 12] noempty hyp obtain j where
    j: "resolve_title no_regex_lib (indices example_model) ?q = Inr (Some (snd (indices example_model ! j)))"
       "fst (indices example_model ! j) \<noteq> None" "\<forall>i<j. fst (indices example_model ! i) = None"
       "\<exists>ms. get_recommendations no_regex_lib example_model ?q 12 = Inr ms
         \<and> ms \<noteq> [] \<and> length ms = min (nat 12) (length (df example_model) - 1)"
    by auto
  have "fst (indices example_model ! 0) \<noteq> None" by (simp add: example_model_def)
  with j(3) have "j = 0" by (cases j) auto
  with j(1) have r: "resolve_title no_regex_lib (indices example_model) ?q = Inr (Some 0)"
    by (simp add: example_model_def)
  from q lbl ok r j(4) [unfolded m] show ?thesis by (intro conjI)
qed

text \<open>
  C10 as stated fails for a catalogue of one row: the empty query resolves to that row,
  the ranking has one entry, and dropping it leaves nothing to return. It fails for
  \<open>n = 0\<close> in the same way, and a title index whose only label is missing resolves no
  query at all.
\<close>

theorem blank_query_counterexample:
  "df single_model \<noteq> []
   \<and> resolve_title no_regex_lib (indices single_model) [] = Inr (Some 0)
   \<and> get_recommendations no_regex_lib single_model [] 12 = Inr []
   \<and> get_recommendations no_regex_lib example_model [] 0 = Inr []
   \<and> resolve_title no_regex_lib [(None, 0)] [] = Inr None"
  by (simp add: recommend_defs single_model_def example_model_def string_defs contains_defs
      slice_defs)

section \<open>Registration\<close>

text \<open>
  C9, as the code has it. A username shorter than 3 characters is answered with 400 and
  the store is returned as it was, no statement executed. A request whose username and
  password are long enough and whose username or email is already in the table is
  answered with 409. Whenever registration is rejected, the table and its counter are
  unchanged.
\<close>

theorem register_rejections:
  "(length (reg_username u) < 3 \<longrightarrow>
      register hash_password now u st =
        (Inl (HTTPException 400 ''Username must be at least 3 characters''), st))
   \<and> (3 \<le> length (reg_username u) \<and> 6 \<le> length (reg_password u)
       \<and> list_ex (\<lambda>r. username r = reg_username u \<or> email r = reg_email u) (users st) \<longrightarrow>
      (\<exists>msg st'. register hash_password now u st = (Inl (HTTPException 409 msg), st')
          \<and> users st' = users st \<and> seq st' = seq st))
   \<and> (\<forall>e st'. register hash_password now u st = (Inl e, st') \<longrightarrow>
          users st' = users st \<and> seq st' = seq st)"
proof (intro conjI impI allI)
  assume "length (reg_username u) < 3"
  then show "register hash_password now u st =
        (Inl (HTTPException 400 ''Username must be at least 3 characters''), st)"
    by (simp add: register_def)
next
  assume a: "3 \<le> length (reg_username u) \<and> 6 \<le> length (reg_password u)
       \<and> list_ex (\<lambda>r. username r = reg_username u \<or> email r = reg_email u) (users st)"
  then have "find (\<lambda>r. username r = reg_username u) (users st) \<noteq> None
      \<or> find (\<lambda>r. email r = reg_email u) (users st) \<noteq> None"
    by (auto simp: find_None_iff list_ex_iff)
  with a show "\<exists>msg st'. register hash_password now u st = (Inl (HTTPException 409 msg), st')
          \<and> users st' = users st \<and> seq st' = seq st"
    by (auto simp: register_defs Let_def)
next
  fix e st'
  assume "register hash_password now u st = (Inl e, st')"
  then show "users st' = users st" 
    by (auto simp: register_defs Let_def find_None_iff list_ex_iff split: if_splits)
next
  fix e st'
  assume "register hash_password now u st = (Inl e, st')"
  then show "seq st' = seq st"
    by (auto simp: register_defs Let_def find_None_iff list_ex_iff split: if_splits)
qed


theorem register_rejections_witness:
  "length (reg_username \<lparr>reg_username = ''al'', reg_email = ''al@example.org'', reg_password = ''secret1''\<rparr>) < 3
   \<and> register (\<lambda>p. p) ''t''
         \<lparr>reg_username = ''al'', reg_email = ''al@example.org'', reg_password = ''secret1''\<rparr> bob_store =
       (Inl (HTTPException 400 ''Username must be at least 3 characters''), bob_store)
   \<and> list_ex (\<lambda>r. username r = ''bob'' \<or> email r = ''new@example.org'') (users bob_store)
   \<and> (\<exists>msg st'. register (\<lambda>p. p) ''t''
         \<lparr>reg_username = ''bob'', reg_email = ''new@example.org'', reg_password = ''secret1''\<rparr> bob_store =
           (Inl (HTTPException 409 msg), st')
         \<and> users st' = users bob_store \<and> seq st' = seq bob_store)"
proof -
  let ?short = "\<lparr>reg_username = ''al'', reg_email = ''al@example.org'', reg_password = ''secret1''\<rparr>"
  let ?dup = "\<lparr>reg_username = ''bob'', reg_email = ''new@example.org'', reg_password = ''secret1''\<rparr>"
  have a: "length (reg_username ?short) < 3" by simp
  have b: "3 \<le> length (reg_username ?dup) \<and> 6 \<le> length (reg_password ?dup)
       \<and> list_ex (\<lambda>r. username r = reg_username ?dup \<or> email r = reg_email ?dup) (users bob_store)"
    by (simp add: bob_store_def bob_def)
  then have c: "list_ex (\<lambda>r. username r = ''bob'' \<or> email r = ''new@example.org'') (users bob_store)"
    by simp
  note r1 = register_rejections [of ?short "\<lambda>p. p" "''t''" bob_store, THEN conjunct1, rule_format, OF a]
  note r2 = register_rejections [of ?dup "\<lambda>p. p" "''t''" bob_store, THEN conjunct2, THEN conjunct1,
      rule_format, OF b]
  from a r1 c r2 show ?thesis by (intro conjI)
qed

text \<open>
  C9 as stated fails for a duplicate username sent with a password that is too short:
  validation comes first and the answer is 400, not 409.
\<close>

theorem register_conflict_counterexample:
  "list_ex (\<lambda>r. username r = ''bob'') (users bob_store)
   \<and> register (\<lambda>p. p) ''t''
         \<lparr>reg_username = ''bob'', reg_email = ''new@example.org'', reg_password = ''12345''\<rparr> bob_store =
       (Inl (HTTPException 400 ''Password must be at least 6 characters''), bob_store)"
  by (simp add: register_def bob_store_def bob_def)

end
